theory Spec2Isabelle
  imports Main
begin

section \<open>Data model of \<open>pt::optional<T>\<close> (src/optional.h)\<close>

text \<open>
  The class has two data members, \<^verbatim>\<open>char storage_[sizeof(T)]\<close> and \<^verbatim>\<open>bool empty_\<close>.
  The byte buffer either holds no object of type \<open>T\<close> (\<open>Raw\<close>) or one live object
  (\<open>Obj v\<close>). The members are called \<open>storage_buf\<close> and \<open>empty_flag\<close> here, since a
  name may not end in an underscore.
\<close>

datatype 'a slot = Raw | Obj 'a

record 'a optional =
  storage_buf :: "'a slot"
  empty_flag :: bool

text \<open>The two states in which flag and buffer agree.\<close>

abbreviation vacant :: "'a optional" where
  "vacant \<equiv> \<lparr>storage_buf = Raw, empty_flag = True\<rparr>"

abbreviation occupied :: "'a \<Rightarrow> 'a optional" where
  "occupied v \<equiv> \<lparr>storage_buf = Obj v, empty_flag = False\<rparr>"

text \<open>
  Exceptions: \<^verbatim>\<open>bad_optional_access\<close> (a \<^verbatim>\<open>std::logic_error\<close> carrying its
  \<^verbatim>\<open>what_arg\<close>), and whatever an operation of \<open>T\<close> throws (\<open>'x\<close>).
\<close>

datatype 'x exn = bad_optional_access string | T_failure 'x

text \<open>
  An operation returns, throws, or has undefined behaviour (it reads or destroys an
  object of type \<open>T\<close> in a buffer that holds none, or uses a reference to no object).
  \<open>Ill_formed\<close> is the fourth outcome: the expression violates a rule of the language, so
  a translation unit that contains it is rejected by the compiler and nothing runs.
\<close>

datatype ('e, 'r) result = Return 'r | Throw 'e | Undefined | Ill_formed

text \<open>
  \<open>T\<close> is a template parameter, so its operations are parameters of the model. \<open>T\<close> is
  an object type that is not const-qualified. Each operation may throw (\<open>Inl\<close>); an
  operation that takes a non-const reference also yields the state in which it leaves
  that argument, when it returns and when it throws.
  \<^item> \<open>construct\<close>: \<^verbatim>\<open>T{std::forward<Args>(args)...}\<close>;
  \<^item> \<open>copy_ctor\<close>: \<^verbatim>\<open>T{const T&}\<close>;
  \<^item> \<open>move_ctor\<close>: \<^verbatim>\<open>T{T&&}\<close>, yielding the new object and the moved-from source;
  \<^item> \<open>move_assign_T\<close>: \<^verbatim>\<open>dst = std::move(src)\<close> on two objects, yielding both;
    \<open>move_assign_self\<close> when both references are to one object;
  \<^item> \<open>eq_T\<close>: \<^verbatim>\<open>a == b\<close>;
  \<^item> \<open>sizeof_T\<close>: \<^verbatim>\<open>sizeof(T)\<close>.
\<close>

record ('a, 'x, 'g) T_ops =
  sizeof_T :: nat
  construct :: "'g \<Rightarrow> 'x + 'a"
  copy_ctor :: "'a \<Rightarrow> 'x + 'a"
  move_ctor :: "'a \<Rightarrow> 'x \<times> 'a + 'a \<times> 'a"
  move_assign_T :: "'a \<Rightarrow> 'a \<Rightarrow> 'x \<times> 'a \<times> 'a + 'a \<times> 'a"
  move_assign_self :: "'a \<Rightarrow> 'x \<times> 'a + 'a"
  eq_T :: "'a \<Rightarrow> 'a \<Rightarrow> 'x + bool"

text \<open>
  \<^verbatim>\<open>value_or\<close> is a template over the type \<open>U\<close> of the fallback. Its body is the
  conditional expression \<^verbatim>\<open>empty_ ? value : **this\<close>, whose operands have the types
  \<open>U\<close> and \<open>const T\<close>: the operand that is selected is brought to the type \<open>'c\<close> of the
  conditional expression, and the \<open>T\<close> that is returned is initialised from that.
  \<^item> \<open>cond_of_U\<close>: the fallback as a value of the type of the conditional expression;
  \<^item> \<open>cond_of_T\<close>: the contained object as a value of that type;
  \<^item> \<open>T_of_cond\<close>: the returned \<open>T\<close>, built from a value of that type.
\<close>

record ('a, 'x, 'u, 'c) cond_ops =
  cond_of_U :: "'u \<Rightarrow> 'x + 'c"
  cond_of_T :: "'a \<Rightarrow> 'x + 'c"
  T_of_cond :: "'c \<Rightarrow> 'x + 'a"

section \<open>Two rules of the language and the member functions they reject\<close>

text \<open>
  A \<^verbatim>\<open>reinterpret_cast\<close> may not cast away constness. A cast of \<^verbatim>\<open>storage_\<close> is
  described by two facts: whether its operand points to const (in a const member function
  \<^verbatim>\<open>storage_\<close> is an array of \<^verbatim>\<open>const char\<close>), and whether its target type does
  (\<^verbatim>\<open>const T*\<close> does, \<^verbatim>\<open>T*\<close> does not).
\<close>

definition casts_away_const :: "bool \<Rightarrow> bool \<Rightarrow> bool" where
  "casts_away_const operand_const target_const = (operand_const \<and> \<not> target_const)"

text \<open>
  Inside a member function the unqualified name \<^verbatim>\<open>swap\<close> finds the members of the
  class with that name, and once a member is found no function outside the class is
  looked for. The class declares one member \<^verbatim>\<open>swap\<close>, with one parameter (line 154).
  A call is viable when a candidate takes the number of arguments given.
\<close>

definition members_named_swap :: "nat list" where
  "members_named_swap = [1]"

definition viable :: "nat list \<Rightarrow> nat \<Rightarrow> bool" where
  "viable candidates nargs = (nargs \<in> set candidates)"

text \<open>
  A member function of a class template is instantiated as a whole when it is called:
  when an expression in its body, or in a function that its body calls, is ill-formed,
  every call of it is.
\<close>

definition instantiate :: "bool \<Rightarrow> ('e, 'r) result \<Rightarrow> ('e, 'r) result" where
  "instantiate well_formed r = (if well_formed then r else Ill_formed)"

text \<open>
  Line 124, \<^verbatim>\<open>const T & operator*() const { return *reinterpret_cast<T*>(storage_); }\<close>:
  the operand points to const and the target \<^verbatim>\<open>T*\<close> does not. (The const
  \<^verbatim>\<open>operator->\<close> of line 116 casts to \<^verbatim>\<open>const T*\<close>.)
\<close>

definition deref_const_well_formed :: bool where
  "deref_const_well_formed = (\<not> casts_away_const True False)"

text \<open>
  Lines 155 and 162, \<^verbatim>\<open>swap(std::declval<T&>(), std::declval<T&>())\<close> and
  \<^verbatim>\<open>swap(**this, *other)\<close> inside the member \<^verbatim>\<open>swap\<close>: two arguments.
\<close>

definition swap_well_formed :: bool where
  "swap_well_formed = viable members_named_swap 2"

text \<open>The copy constructor calls the const \<^verbatim>\<open>value()\<close>, which calls the const \<^verbatim>\<open>operator*\<close>.\<close>

definition copy_construct_well_formed :: bool where
  "copy_construct_well_formed = deref_const_well_formed"

text \<open>
  The copy assignment constructs \<^verbatim>\<open>tmp\<close> with the copy constructor and calls
  \<^verbatim>\<open>swap(tmp)\<close>, one argument, which is the member \<^verbatim>\<open>swap\<close>.
\<close>

definition copy_assign_well_formed :: bool where
  "copy_assign_well_formed =
     (copy_construct_well_formed \<and> viable members_named_swap 1 \<and> swap_well_formed)"

section \<open>Accessors and the free comparison operators\<close>

text \<open>
  The non-const \<^verbatim>\<open>operator*\<close> (lines 127 to 129), read as a \<open>T\<close>:
  \<^verbatim>\<open>*reinterpret_cast<T*>(storage_)\<close>, unchecked.
\<close>

definition deref :: "'a optional \<Rightarrow> ('e, 'a) result" where
  "deref opt = (case storage_buf opt of Raw \<Rightarrow> Undefined | Obj v \<Rightarrow> Return v)"

text \<open>The const \<^verbatim>\<open>operator*\<close> (lines 123 to 125): the same expression in a const member.\<close>

definition deref_const :: "'a optional \<Rightarrow> ('e, 'a) result" where
  "deref_const opt =
     (if deref_const_well_formed then
        (case storage_buf opt of Raw \<Rightarrow> Undefined | Obj v \<Rightarrow> Return v)
      else Ill_formed)"

text \<open>\<^verbatim>\<open>explicit operator bool\<close>: \<^verbatim>\<open>return !empty_\<close>.\<close>

definition to_bool :: "'a optional \<Rightarrow> bool" where
  "to_bool opt = (\<not> empty_flag opt)"

text \<open>
  The non-const \<^verbatim>\<open>value()\<close> (lines 135 to 140):
  \<^verbatim>\<open>if (empty_) throw bad_optional_access{"call value on empty object"}; return **this;\<close>
\<close>

definition value_opt :: "'a optional \<Rightarrow> ('x exn, 'a) result" where
  "value_opt opt =
     (if empty_flag opt then Throw (bad_optional_access ''call value on empty object'')
      else deref opt)"

text \<open>
  The const \<^verbatim>\<open>value()\<close> (lines 142 to 147) has the same two statements, with the
  const \<^verbatim>\<open>operator*\<close>. \<open>value_const_stmts\<close> runs the statements; \<open>value_const\<close> is the
  member function as a program can call it.
\<close>

definition value_const_stmts :: "'a optional \<Rightarrow> ('x exn, 'a) result" where
  "value_const_stmts opt =
     (if empty_flag opt then Throw (bad_optional_access ''call value on empty object'')
      else deref_const opt)"

definition value_const :: "'a optional \<Rightarrow> ('x exn, 'a) result" where
  "value_const opt = instantiate deref_const_well_formed (value_const_stmts opt)"

text \<open>
  \<^verbatim>\<open>T value_or(U &&value) const { return empty_ ? value : **this; }\<close>
  A const member: \<^verbatim>\<open>**this\<close> is the const \<^verbatim>\<open>operator*\<close>. Only the selected operand is
  evaluated; it is brought to the type of the conditional expression and the result is
  returned as a \<open>T\<close> by value.
\<close>

definition value_or_stmts ::
  "('a, 'x, 'u, 'c) cond_ops \<Rightarrow> 'a optional \<Rightarrow> 'u \<Rightarrow> ('x exn, 'a) result" where
  "value_or_stmts cv opt fallback =
     (if empty_flag opt then
        (case cond_of_U cv fallback of
           Inl x \<Rightarrow> Throw (T_failure x)
         | Inr c \<Rightarrow>
             (case T_of_cond cv c of
                Inl x \<Rightarrow> Throw (T_failure x)
              | Inr v \<Rightarrow> Return v))
      else
        (case deref_const opt of
           Return w \<Rightarrow>
             (case cond_of_T cv w of
                Inl x \<Rightarrow> Throw (T_failure x)
              | Inr c \<Rightarrow>
                  (case T_of_cond cv c of
                     Inl x \<Rightarrow> Throw (T_failure x)
                   | Inr v \<Rightarrow> Return v))
         | Throw e \<Rightarrow> Throw e
         | Undefined \<Rightarrow> Undefined
         | Ill_formed \<Rightarrow> Ill_formed))"

definition value_or ::
  "('a, 'x, 'u, 'c) cond_ops \<Rightarrow> 'a optional \<Rightarrow> 'u \<Rightarrow> ('x exn, 'a) result" where
  "value_or cv opt fallback = instantiate deref_const_well_formed (value_or_stmts cv opt fallback)"

text \<open>
  \<^verbatim>\<open>operator==(const optional<T> &lhs, const optional<T> &rhs)\<close>, lines 191 to 200.
  Both parameters are references to const, so \<^verbatim>\<open>*lhs\<close> and \<^verbatim>\<open>*rhs\<close> are the const
  \<^verbatim>\<open>operator*\<close>.
\<close>

definition eq_opt_opt_stmts ::
  "('a, 'x, 'g) T_ops \<Rightarrow> 'a optional \<Rightarrow> 'a optional \<Rightarrow> ('x exn, bool) result" where
  "eq_opt_opt_stmts ops lhs rhs =
     (if to_bool lhs \<noteq> to_bool rhs then Return False
      else if \<not> to_bool lhs \<and> \<not> to_bool rhs then Return True
      else
        (case deref_const lhs of
           Return a \<Rightarrow>
             (case deref_const rhs of
                Return b \<Rightarrow>
                  (case eq_T ops a b of
                     Inl x \<Rightarrow> Throw (T_failure x)
                   | Inr r \<Rightarrow> Return r)
              | Throw e \<Rightarrow> Throw e
              | Undefined \<Rightarrow> Undefined
              | Ill_formed \<Rightarrow> Ill_formed)
         | Throw e \<Rightarrow> Throw e
         | Undefined \<Rightarrow> Undefined
         | Ill_formed \<Rightarrow> Ill_formed))"

definition eq_opt_opt ::
  "('a, 'x, 'g) T_ops \<Rightarrow> 'a optional \<Rightarrow> 'a optional \<Rightarrow> ('x exn, bool) result" where
  "eq_opt_opt ops lhs rhs = instantiate deref_const_well_formed (eq_opt_opt_stmts ops lhs rhs)"

text \<open>\<^verbatim>\<open>operator==(const optional<T> &opt, nullopt_t)\<close>: \<^verbatim>\<open>return !bool(opt)\<close>.\<close>

definition eq_opt_nullopt :: "'a optional \<Rightarrow> bool" where
  "eq_opt_nullopt opt = (\<not> to_bool opt)"

text \<open>\<^verbatim>\<open>operator==(nullopt_t, const optional<T> &opt)\<close>: \<^verbatim>\<open>return !bool(opt)\<close>.\<close>

definition eq_nullopt_opt :: "'a optional \<Rightarrow> bool" where
  "eq_nullopt_opt opt = (\<not> to_bool opt)"

text \<open>
  \<^verbatim>\<open>operator==(const optional<T> &opt, const T &value)\<close>:
  \<^verbatim>\<open>return bool(opt) ? *opt == value : false\<close>, with the const \<^verbatim>\<open>operator*\<close>.
\<close>

definition eq_opt_val_stmts ::
  "('a, 'x, 'g) T_ops \<Rightarrow> 'a optional \<Rightarrow> 'a \<Rightarrow> ('x exn, bool) result" where
  "eq_opt_val_stmts ops opt val =
     (if to_bool opt then
        (case deref_const opt of
           Return a \<Rightarrow>
             (case eq_T ops a val of
                Inl x \<Rightarrow> Throw (T_failure x)
              | Inr r \<Rightarrow> Return r)
         | Throw e \<Rightarrow> Throw e
         | Undefined \<Rightarrow> Undefined
         | Ill_formed \<Rightarrow> Ill_formed)
      else Return False)"

definition eq_opt_val ::
  "('a, 'x, 'g) T_ops \<Rightarrow> 'a optional \<Rightarrow> 'a \<Rightarrow> ('x exn, bool) result" where
  "eq_opt_val ops opt val = instantiate deref_const_well_formed (eq_opt_val_stmts ops opt val)"

text \<open>
  \<^verbatim>\<open>operator==(const T &value, const optional<T> &opt)\<close> has the same body: the
  contained object is the left operand of \<open>T\<close>'s comparison here too.
\<close>

definition eq_val_opt_stmts ::
  "('a, 'x, 'g) T_ops \<Rightarrow> 'a \<Rightarrow> 'a optional \<Rightarrow> ('x exn, bool) result" where
  "eq_val_opt_stmts ops val opt =
     (if to_bool opt then
        (case deref_const opt of
           Return a \<Rightarrow>
             (case eq_T ops a val of
                Inl x \<Rightarrow> Throw (T_failure x)
              | Inr r \<Rightarrow> Return r)
         | Throw e \<Rightarrow> Throw e
         | Undefined \<Rightarrow> Undefined
         | Ill_formed \<Rightarrow> Ill_formed)
      else Return False)"

definition eq_val_opt ::
  "('a, 'x, 'g) T_ops \<Rightarrow> 'a \<Rightarrow> 'a optional \<Rightarrow> ('x exn, bool) result" where
  "eq_val_opt ops val opt = instantiate deref_const_well_formed (eq_val_opt_stmts ops val opt)"

section \<open>Objects in memory\<close>

text \<open>
  The mutating member functions take \<^verbatim>\<open>this\<close> and \<^verbatim>\<open>other\<close> by reference, and
  \<^verbatim>\<open>a = a\<close> passes the same object twice, so the \<open>optional\<close> objects live in a store
  and a reference is an index into it. A local object (\<^verbatim>\<open>tmp\<close> of the copy
  assignment) is pushed at the end of the store and popped when its scope ends. Two
  logs record what happens to objects of type \<open>T\<close>: \<open>destroyed\<close> holds the values whose
  destructor ran, in order; \<open>leaked\<close> holds the values of live objects over which a new
  object was constructed without a destructor call.
\<close>

record 'a state =
  objs :: "'a optional list"
  destroyed :: "'a list"
  leaked :: "'a list"

definition set_storage :: "'a state \<Rightarrow> nat \<Rightarrow> 'a slot \<Rightarrow> 'a state" where
  "set_storage h p s = h\<lparr>objs := (objs h)[p := (objs h ! p)\<lparr>storage_buf := s\<rparr>]\<rparr>"

definition set_empty :: "'a state \<Rightarrow> nat \<Rightarrow> bool \<Rightarrow> 'a state" where
  "set_empty h p b = h\<lparr>objs := (objs h)[p := (objs h ! p)\<lparr>empty_flag := b\<rparr>]\<rparr>"

definition push :: "'a state \<Rightarrow> 'a optional \<Rightarrow> 'a state" where
  "push h opt = h\<lparr>objs := objs h @ [opt]\<rparr>"

definition pop :: "'a state \<Rightarrow> 'a state" where
  "pop h = h\<lparr>objs := butlast (objs h)\<rparr>"

text \<open>\<^verbatim>\<open>new(storage_) T{...}\<close>, once the constructor has produced the object \<open>v\<close>.\<close>

definition placement_new :: "'a state \<Rightarrow> nat \<Rightarrow> 'a \<Rightarrow> 'a state" where
  "placement_new h p v =
     (case storage_buf (objs h ! p) of
        Raw \<Rightarrow> set_storage h p (Obj v)
      | Obj w \<Rightarrow> (set_storage h p (Obj v))\<lparr>leaked := leaked h @ [w]\<rparr>)"

text \<open>\<^verbatim>\<open>reinterpret_cast<T*>(storage_)->~T()\<close>: undefined when the buffer holds no object.\<close>

definition destroy_T :: "'a state \<Rightarrow> nat \<Rightarrow> ('e, 'a state) result" where
  "destroy_T h p =
     (case storage_buf (objs h ! p) of
        Raw \<Rightarrow> Undefined
      | Obj v \<Rightarrow> Return ((set_storage h p Raw)\<lparr>destroyed := destroyed h @ [v]\<rparr>))"

section \<open>Constructors and destructor\<close>

text \<open>\<^verbatim>\<open>optional() noexcept : empty_{true} { }\<close>; the buffer is not touched.\<close>

definition optional_default :: "'a state \<Rightarrow> 'a state" where
  "optional_default h = push h \<lparr>storage_buf = Raw, empty_flag = True\<rparr>"

text \<open>\<^verbatim>\<open>optional(const T &val) : empty_{false} { new(storage_) T{val}; }\<close>\<close>

definition optional_from_value ::
  "('a, 'x, 'g) T_ops \<Rightarrow> 'a state \<Rightarrow> 'a \<Rightarrow> ('x exn \<times> 'a state, 'a state) result" where
  "optional_from_value ops h val =
     (case copy_ctor ops val of
        Inl x \<Rightarrow> Throw (T_failure x, h)
      | Inr c \<Rightarrow> Return (push h \<lparr>storage_buf = Obj c, empty_flag = False\<rparr>))"

text \<open>
  \<^verbatim>\<open>optional(const optional &other) : empty_{other.empty_}
      { if (!empty_) { new(storage_) T{other.value()}; } }\<close>
  \<^verbatim>\<open>other\<close> is a reference to const, so \<^verbatim>\<open>other.value()\<close> is the const overload. The
  new object is pushed at index \<open>length (objs h)\<close>. When \<open>T\<close>'s copy constructor throws,
  no object has been constructed and the store is as before.
\<close>

definition copy_construct_stmts ::
  "('a, 'x, 'g) T_ops \<Rightarrow> 'a state \<Rightarrow> nat \<Rightarrow> ('x exn \<times> 'a state, 'a state) result" where
  "copy_construct_stmts ops h other =
     (if other < length (objs h) then
        (let e = empty_flag (objs h ! other) in
         if \<not> e then
           (case value_const_stmts (objs h ! other) of
              Return v \<Rightarrow>
                (case copy_ctor ops v of
                   Inl x \<Rightarrow> Throw (T_failure x, h)
                 | Inr c \<Rightarrow> Return (push h \<lparr>storage_buf = Obj c, empty_flag = e\<rparr>))
            | Throw ex \<Rightarrow> Throw (ex, h)
            | Undefined \<Rightarrow> Undefined
            | Ill_formed \<Rightarrow> Ill_formed)
         else Return (push h \<lparr>storage_buf = Raw, empty_flag = e\<rparr>))
      else Undefined)"

definition copy_construct ::
  "('a, 'x, 'g) T_ops \<Rightarrow> 'a state \<Rightarrow> nat \<Rightarrow> ('x exn \<times> 'a state, 'a state) result" where
  "copy_construct ops h other =
     instantiate copy_construct_well_formed (copy_construct_stmts ops h other)"

text \<open>
  \<^verbatim>\<open>optional(optional &&other) : empty_{other.empty_}
      { if (!empty_) { new(storage_) T{std::move(other.value())}; } }\<close>
  Nothing is written to \<^verbatim>\<open>other.empty_\<close>; the object in \<^verbatim>\<open>other\<close> is left as
  \<open>T\<close>'s move constructor leaves it. \<^verbatim>\<open>other\<close> is not const: \<^verbatim>\<open>other.value()\<close> is the
  non-const overload.
\<close>

definition move_construct ::
  "('a, 'x, 'g) T_ops \<Rightarrow> 'a state \<Rightarrow> nat \<Rightarrow> ('x exn \<times> 'a state, 'a state) result" where
  "move_construct ops h other =
     (if other < length (objs h) then
        (let e = empty_flag (objs h ! other) in
         if \<not> e then
           (case value_opt (objs h ! other) of
              Return v \<Rightarrow>
                (case move_ctor ops v of
                   Inl (x, v') \<Rightarrow> Throw (T_failure x, set_storage h other (Obj v'))
                 | Inr (n, v') \<Rightarrow>
                     Return (push (set_storage h other (Obj v'))
                               \<lparr>storage_buf = Obj n, empty_flag = e\<rparr>))
            | Throw ex \<Rightarrow> Throw (ex, h)
            | Undefined \<Rightarrow> Undefined
            | Ill_formed \<Rightarrow> Ill_formed)
         else Return (push h \<lparr>storage_buf = Raw, empty_flag = e\<rparr>))
      else Undefined)"

text \<open>
  \<^verbatim>\<open>~optional() { if (!empty_ && sizeof(T)) { reinterpret_cast<T*>(storage_)->~T(); } }\<close>
\<close>

definition destructor ::
  "('a, 'x, 'g) T_ops \<Rightarrow> 'a state \<Rightarrow> nat \<Rightarrow> ('x exn \<times> 'a state, 'a state) result" where
  "destructor ops h this =
     (if this < length (objs h) then
        (if \<not> empty_flag (objs h ! this) \<and> sizeof_T ops \<noteq> 0 then destroy_T h this
         else Return h)
      else Undefined)"

section \<open>Assignment, swap, emplace\<close>

text \<open>
  \<^verbatim>\<open>optional & operator=(nullopt_t) noexcept
      { if (!empty_) { reinterpret_cast<T*>(storage_)->~T(); } empty_ = true; return *this; }\<close>
\<close>

definition assign_nullopt :: "'a state \<Rightarrow> nat \<Rightarrow> ('x exn \<times> 'a state, 'a state) result" where
  "assign_nullopt h this =
     (if this < length (objs h) then
        (if \<not> empty_flag (objs h ! this) then
           (case destroy_T h this of
              Return h1 \<Rightarrow> Return (set_empty h1 this True)
            | Throw e \<Rightarrow> Throw e
            | Undefined \<Rightarrow> Undefined
            | Ill_formed \<Rightarrow> Ill_formed)
         else Return (set_empty h this True))
      else Undefined)"

text \<open>
  \<^verbatim>\<open>optional & operator=(optional &&other)\<close>, source lines 94 to 113. In the last
  branch \<^verbatim>\<open>*reinterpret_cast<T*>(storage_) = std::move(other.value())\<close> is \<open>T\<close>'s move
  assignment on the object already in the buffer.
\<close>

definition move_assign ::
  "('a, 'x, 'g) T_ops \<Rightarrow> 'a state \<Rightarrow> nat \<Rightarrow> nat \<Rightarrow> ('x exn \<times> 'a state, 'a state) result" where
  "move_assign ops h this other =
     (if this < length (objs h) \<and> other < length (objs h) then
        (if empty_flag (objs h ! this) then
           (if empty_flag (objs h ! other) then Return h
            else
              (case value_opt (objs h ! other) of
                 Return v \<Rightarrow>
                   (case move_ctor ops v of
                      Inl (x, v') \<Rightarrow> Throw (T_failure x, set_storage h other (Obj v'))
                    | Inr (n, v') \<Rightarrow>
                        Return (set_empty
                                  (placement_new (set_storage h other (Obj v')) this n)
                                  this False))
               | Throw ex \<Rightarrow> Throw (ex, h)
               | Undefined \<Rightarrow> Undefined
               | Ill_formed \<Rightarrow> Ill_formed))
         else
           (if empty_flag (objs h ! other) then
              (case destroy_T h this of
                 Return h1 \<Rightarrow> Return (set_empty h1 this True)
               | Throw e \<Rightarrow> Throw e
               | Undefined \<Rightarrow> Undefined
               | Ill_formed \<Rightarrow> Ill_formed)
            else
              (case value_opt (objs h ! other) of
                 Return s \<Rightarrow>
                   (case deref (objs h ! this) of
                      Return d \<Rightarrow>
                        (if this = other then
                           (case move_assign_self ops d of
                              Inl (x, d') \<Rightarrow> Throw (T_failure x, set_storage h this (Obj d'))
                            | Inr d' \<Rightarrow> Return (set_storage h this (Obj d')))
                         else
                           (case move_assign_T ops d s of
                              Inl (x, d', s') \<Rightarrow>
                                Throw (T_failure x,
                                  set_storage (set_storage h this (Obj d')) other (Obj s'))
                            | Inr (d', s') \<Rightarrow>
                                Return (set_storage (set_storage h this (Obj d')) other (Obj s'))))
                    | Throw e \<Rightarrow> Throw e
                    | Undefined \<Rightarrow> Undefined
                    | Ill_formed \<Rightarrow> Ill_formed)
               | Throw ex \<Rightarrow> Throw (ex, h)
               | Undefined \<Rightarrow> Undefined
               | Ill_formed \<Rightarrow> Ill_formed)))
      else Undefined)"

text \<open>
  The two pointers of \<^verbatim>\<open>swap\<close>, source lines 166 and 167:
  \<^verbatim>\<open>optional * in = empty_ ? this : &other;\<close>
  \<^verbatim>\<open>optional * un = empty_ ? &other : this;\<close>
\<close>

definition swap_in :: "'a state \<Rightarrow> nat \<Rightarrow> nat \<Rightarrow> nat" where
  "swap_in h this other = (if empty_flag (objs h ! this) then this else other)"

definition swap_un :: "'a state \<Rightarrow> nat \<Rightarrow> nat \<Rightarrow> nat" where
  "swap_un h this other = (if empty_flag (objs h ! this) then other else this)"

text \<open>
  \<^verbatim>\<open>void swap(optional &other)\<close>, source lines 154 to 173. \<open>swap_stmts\<close> runs the
  statements of the body. The second branch is the call \<^verbatim>\<open>swap(**this, *other)\<close> of
  line 162: the only candidate is the member with one parameter, so there is no function
  for it to call. The last four statements are
  \<^verbatim>\<open>new(un->storage_) T{std::move(**in)};\<close>
  \<^verbatim>\<open>reinterpret_cast<T*>(in->storage_)->~T();\<close>
  \<^verbatim>\<open>un->empty_ = false;\<close>
  \<^verbatim>\<open>in->empty_ = true;\<close>
  where \<^verbatim>\<open>**in\<close> is read by \<open>T\<close>'s move constructor.
\<close>

definition swap_stmts ::
  "('a, 'x, 'g) T_ops \<Rightarrow> 'a state \<Rightarrow> nat \<Rightarrow> nat \<Rightarrow> ('x exn \<times> 'a state, 'a state) result" where
  "swap_stmts ops h this other =
     (if this < length (objs h) \<and> other < length (objs h) then
        (if empty_flag (objs h ! this) \<and> empty_flag (objs h ! other) then Return h
         else if \<not> empty_flag (objs h ! this) \<and> \<not> empty_flag (objs h ! other) then
           Ill_formed
         else
           (let inp = swap_in h this other;
                un = swap_un h this other
            in case deref (objs h ! inp) of
                 Return v \<Rightarrow>
                   (case move_ctor ops v of
                      Inl (x, v') \<Rightarrow> Throw (T_failure x, set_storage h inp (Obj v'))
                    | Inr (n, v') \<Rightarrow>
                        (case destroy_T (placement_new (set_storage h inp (Obj v')) un n) inp of
                           Return h1 \<Rightarrow> Return (set_empty (set_empty h1 un False) inp True)
                         | Throw e \<Rightarrow> Throw e
                         | Undefined \<Rightarrow> Undefined
                         | Ill_formed \<Rightarrow> Ill_formed))
               | Throw e \<Rightarrow> Throw e
               | Undefined \<Rightarrow> Undefined
               | Ill_formed \<Rightarrow> Ill_formed))
      else Undefined)"

text \<open>The member function \<^verbatim>\<open>swap\<close> as a program can call it.\<close>

definition swap ::
  "('a, 'x, 'g) T_ops \<Rightarrow> 'a state \<Rightarrow> nat \<Rightarrow> nat \<Rightarrow> ('x exn \<times> 'a state, 'a state) result" where
  "swap ops h this other = instantiate swap_well_formed (swap_stmts ops h this other)"

text \<open>
  \<^verbatim>\<open>optional & operator=(const optional &other)
      { optional tmp{other}; swap(tmp); return *this; }\<close>
  \<open>copy_assign_stmts\<close> runs the statements. \<^verbatim>\<open>tmp\<close> is the local object at index
  \<open>length (objs h)\<close>. Its destructor runs when the function returns and when
  \<^verbatim>\<open>swap\<close> throws; then it is popped. When its constructor throws there is no
  \<^verbatim>\<open>tmp\<close> to destroy.
\<close>

definition copy_assign_stmts ::
  "('a, 'x, 'g) T_ops \<Rightarrow> 'a state \<Rightarrow> nat \<Rightarrow> nat \<Rightarrow> ('x exn \<times> 'a state, 'a state) result" where
  "copy_assign_stmts ops h this other =
     (if this < length (objs h) then
        (case copy_construct_stmts ops h other of
           Return h1 \<Rightarrow>
             (let tmp = length (objs h) in
              case swap_stmts ops h1 this tmp of
                Return h2 \<Rightarrow>
                  (case destructor ops h2 tmp of
                     Return h3 \<Rightarrow> Return (pop h3)
                   | Throw e \<Rightarrow> Throw e
                   | Undefined \<Rightarrow> Undefined
                   | Ill_formed \<Rightarrow> Ill_formed)
              | Throw (ex, h2) \<Rightarrow>
                  (case destructor ops h2 tmp of
                     Return h3 \<Rightarrow> Throw (ex, pop h3)
                   | Throw e \<Rightarrow> Throw e
                   | Undefined \<Rightarrow> Undefined
                   | Ill_formed \<Rightarrow> Ill_formed)
              | Undefined \<Rightarrow> Undefined
              | Ill_formed \<Rightarrow> Ill_formed)
         | Throw e \<Rightarrow> Throw e
         | Undefined \<Rightarrow> Undefined
         | Ill_formed \<Rightarrow> Ill_formed)
      else Undefined)"

text \<open>The copy assignment as a program can call it.\<close>

definition copy_assign ::
  "('a, 'x, 'g) T_ops \<Rightarrow> 'a state \<Rightarrow> nat \<Rightarrow> nat \<Rightarrow> ('x exn \<times> 'a state, 'a state) result" where
  "copy_assign ops h this other =
     instantiate copy_assign_well_formed (copy_assign_stmts ops h this other)"

text \<open>
  \<^verbatim>\<open>void emplace(Args&&... args)
      { if (!empty_) { reinterpret_cast<T*>(storage_)->~T(); empty_ = true; }
        new(storage_) T{std::forward<Args>(args)...};
        empty_ = false; }\<close>
\<close>

definition emplace ::
  "('a, 'x, 'g) T_ops \<Rightarrow> 'a state \<Rightarrow> nat \<Rightarrow> 'g \<Rightarrow> ('x exn \<times> 'a state, 'a state) result" where
  "emplace ops h this args =
     (if this < length (objs h) then
        (case (if \<not> empty_flag (objs h ! this) then
                 (case destroy_T h this of
                    Return h0 \<Rightarrow> Return (set_empty h0 this True)
                  | Throw e \<Rightarrow> Throw e
                  | Undefined \<Rightarrow> Undefined
                  | Ill_formed \<Rightarrow> Ill_formed)
               else Return h) of
           Return h1 \<Rightarrow>
             (case construct ops args of
                Inl x \<Rightarrow> Throw (T_failure x, h1)
              | Inr v \<Rightarrow> Return (set_empty (placement_new h1 this v) this False))
         | Throw e \<Rightarrow> Throw e
         | Undefined \<Rightarrow> Undefined
         | Ill_formed \<Rightarrow> Ill_formed)
      else Undefined)"

section \<open>Instances of \<open>T\<close> for concrete runs\<close>

text \<open>
  A string type as \<^verbatim>\<open>std::string\<close> behaves: copies are equal to the original, and a
  move takes the contents and leaves the source empty.
\<close>

definition string_ops :: "(string, string, string) T_ops" where
  "string_ops =
     \<lparr>sizeof_T = 32,
      construct = (\<lambda>s. Inr s),
      copy_ctor = (\<lambda>s. Inr s),
      move_ctor = (\<lambda>s. Inr (s, [])),
      move_assign_T = (\<lambda>d s. Inr (s, [])),
      move_assign_self = (\<lambda>d. Inr d),
      eq_T = (\<lambda>a b. Inr (a = b))\<rparr>"

text \<open>The same type when no memory can be allocated: every construction that copies throws.\<close>

definition failing_ops :: "(string, string, string) T_ops" where
  "failing_ops =
     string_ops
       \<lparr>construct := (\<lambda>s. Inl ''bad_alloc''),
        copy_ctor := (\<lambda>s. Inl ''bad_alloc'')\<rparr>"

text \<open>
  \<^verbatim>\<open>value_or\<close> on that string type with a string as fallback: both operands of the
  conditional expression are strings already.
\<close>

definition string_cond_ops :: "(string, string, string, string) cond_ops" where
  "string_cond_ops =
     \<lparr>cond_of_U = (\<lambda>s. Inr s),
      cond_of_T = (\<lambda>s. Inr s),
      T_of_cond = (\<lambda>s. Inr s)\<rparr>"

section \<open>Checked access\<close>



section \<open>Emplace when the constructor throws\<close>

text \<open>
  Claim C9. When \<open>T\<close>'s constructor throws during \<^verbatim>\<open>emplace\<close>, the container is left
  empty, flag and buffer both: an object it held has been destroyed, once, and the flag
  set before the construction was tried; nothing is leaked, no other object is touched,
  and the destructor of the container then does nothing.
\<close>

theorem emplace_ctor_throws:
  assumes "this < length (objs h)" and "construct ops args = Inl x"
    and "objs h ! this = vacant \<or> objs h ! this = occupied v"
  shows "\<exists>h'. emplace ops h this args = Throw (T_failure x, h')
           \<and> objs h' = (objs h)[this := vacant]
           \<and> destroyed h' = destroyed h @ (if empty_flag (objs h ! this) then [] else [v])
           \<and> leaked h' = leaked h
           \<and> destructor ops h' this = Return h'"
proof -
  from assms(3) show ?thesis
  proof
    assume e: "objs h ! this = vacant"
    have "(objs h)[this := vacant] = objs h"
      using list_update_id [of "objs h" this] e by simp
    with assms(1,2) e show ?thesis
      by (simp add: emplace_def destructor_def)
  next
    assume "objs h ! this = occupied v"
    with assms(1,2) show ?thesis
      by (simp add: emplace_def destroy_T_def set_empty_def set_storage_def destructor_def)
  qed
qed

theorem emplace_ctor_throws_witness:
  "\<exists>h'. emplace failing_ops
            \<lparr>objs = [occupied ''old'', vacant], destroyed = [], leaked = []\<rparr> 0 ''args''
           = Throw (T_failure ''bad_alloc'', h')
         \<and> objs h' = [vacant, vacant] \<and> destroyed h' = [''old''] \<and> leaked h' = []
         \<and> destructor failing_ops h' 0 = Return h'"
proof -
  have c: "construct failing_ops ''args'' = Inl ''bad_alloc''"
    by (simp add: failing_ops_def)
  show ?thesis
    using emplace_ctor_throws [of 0
        "\<lparr>objs = [occupied ''old'', vacant], destroyed = [], leaked = []\<rparr>"
        failing_ops "''args''" "''bad_alloc''" "''old''"] c
    by simp
qed

section \<open>Move assignment\<close>

text \<open>
  Claim C4. Move assignment, by the occupancy of destination and source. Empty
  destination, empty source: nothing changes. Empty destination, occupied source: \<open>T\<close>'s
  move constructor builds the destination's object in its buffer and the destination
  becomes occupied. Occupied destination, empty source: the destination's object is
  destroyed and the destination becomes empty. Occupied destination, occupied source:
  \<open>T\<close>'s move assignment updates the destination's object in place, and nothing is
  destroyed or constructed. The last conjunct is that case when source and destination
  are one object.
\<close>

theorem move_assign_four_cases:
  assumes "this < length (objs h)" and "other < length (objs h)"
  shows
    "(objs h ! this = vacant \<and> objs h ! other = vacant \<longrightarrow>
        move_assign ops h this other = Return h)
     \<and> (objs h ! this = vacant \<and> objs h ! other = occupied s \<and> move_ctor ops s = Inr (n, s') \<longrightarrow>
        move_assign ops h this other
          = Return (h\<lparr>objs := (objs h)[other := occupied s', this := occupied n]\<rparr>))
     \<and> (objs h ! this = occupied d \<and> objs h ! other = vacant \<longrightarrow>
        move_assign ops h this other
          = Return (h\<lparr>objs := (objs h)[this := vacant], destroyed := destroyed h @ [d]\<rparr>))
     \<and> (objs h ! this = occupied d \<and> objs h ! other = occupied s \<and> this \<noteq> other
          \<and> move_assign_T ops d s = Inr (d', s') \<longrightarrow>
        move_assign ops h this other
          = Return (h\<lparr>objs := (objs h)[this := occupied d', other := occupied s']\<rparr>))
     \<and> (objs h ! this = occupied d \<and> move_assign_self ops d = Inr d' \<longrightarrow>
        move_assign ops h this this
          = Return (h\<lparr>objs := (objs h)[this := occupied d']\<rparr>))"
proof (intro conjI impI)
  assume "objs h ! this = vacant \<and> objs h ! other = vacant"
  with assms show "move_assign ops h this other = Return h"
    by (simp add: move_assign_def)
next
  assume a: "objs h ! this = vacant \<and> objs h ! other = occupied s \<and> move_ctor ops s = Inr (n, s')"
  then have "this \<noteq> other" by auto
  with a assms show "move_assign ops h this other
      = Return (h\<lparr>objs := (objs h)[other := occupied s', this := occupied n]\<rparr>)"
    by (simp add: move_assign_def value_opt_def deref_def placement_new_def
        set_storage_def set_empty_def)
next
  assume "objs h ! this = occupied d \<and> objs h ! other = vacant"
  with assms show "move_assign ops h this other
      = Return (h\<lparr>objs := (objs h)[this := vacant], destroyed := destroyed h @ [d]\<rparr>)"
    by (simp add: move_assign_def destroy_T_def set_storage_def set_empty_def)
next
  assume "objs h ! this = occupied d \<and> objs h ! other = occupied s \<and> this \<noteq> other
          \<and> move_assign_T ops d s = Inr (d', s')"
  with assms show "move_assign ops h this other
      = Return (h\<lparr>objs := (objs h)[this := occupied d', other := occupied s']\<rparr>)"
    by (simp add: move_assign_def value_opt_def deref_def set_storage_def)
next
  assume "objs h ! this = occupied d \<and> move_assign_self ops d = Inr d'"
  with assms show "move_assign ops h this this
      = Return (h\<lparr>objs := (objs h)[this := occupied d']\<rparr>)"
    by (simp add: move_assign_def value_opt_def deref_def set_storage_def)
qed

theorem move_assign_four_cases_witness:
  "move_assign string_ops \<lparr>objs = [vacant, vacant], destroyed = [], leaked = []\<rparr> 0 1
     = Return \<lparr>objs = [vacant, vacant], destroyed = [], leaked = []\<rparr>
   \<and> move_assign string_ops \<lparr>objs = [vacant, occupied ''src''], destroyed = [], leaked = []\<rparr> 0 1
     = Return \<lparr>objs = [occupied ''src'', occupied []], destroyed = [], leaked = []\<rparr>
   \<and> move_assign string_ops \<lparr>objs = [occupied ''dst'', vacant], destroyed = [], leaked = []\<rparr> 0 1
     = Return \<lparr>objs = [vacant, vacant], destroyed = [''dst''], leaked = []\<rparr>
   \<and> move_assign string_ops
        \<lparr>objs = [occupied ''dst'', occupied ''src''], destroyed = [], leaked = []\<rparr> 0 1
     = Return \<lparr>objs = [occupied ''src'', occupied []], destroyed = [], leaked = []\<rparr>
   \<and> move_assign string_ops \<lparr>objs = [occupied ''dst''], destroyed = [], leaked = []\<rparr> 0 0
     = Return \<lparr>objs = [occupied ''dst''], destroyed = [], leaked = []\<rparr>"
proof -
  have m: "\<And>s. move_ctor string_ops s = Inr (s, [])"
    "\<And>d s. move_assign_T string_ops d s = Inr (s, [])"
    "\<And>d. move_assign_self string_ops d = Inr d"
    by (simp_all add: string_ops_def)
  have "move_assign string_ops \<lparr>objs = [vacant, vacant], destroyed = [], leaked = []\<rparr> 0 1
     = Return \<lparr>objs = [vacant, vacant], destroyed = [], leaked = []\<rparr>"
    using move_assign_four_cases [where this = 0 and other = 1 and ops = string_ops
        and h = "\<lparr>objs = [vacant, vacant], destroyed = [], leaked = []\<rparr>"]
    by simp
  moreover have "move_assign string_ops
        \<lparr>objs = [vacant, occupied ''src''], destroyed = [], leaked = []\<rparr> 0 1
     = Return \<lparr>objs = [occupied ''src'', occupied []], destroyed = [], leaked = []\<rparr>"
    using move_assign_four_cases [where this = 0 and other = 1 and ops = string_ops
        and h = "\<lparr>objs = [vacant, occupied ''src''], destroyed = [], leaked = []\<rparr>"
        and s = "''src''" and n = "''src''" and s' = "[]"]
    by (simp add: m)
  moreover have "move_assign string_ops
        \<lparr>objs = [occupied ''dst'', vacant], destroyed = [], leaked = []\<rparr> 0 1
     = Return \<lparr>objs = [vacant, vacant], destroyed = [''dst''], leaked = []\<rparr>"
    using move_assign_four_cases [where this = 0 and other = 1 and ops = string_ops
        and h = "\<lparr>objs = [occupied ''dst'', vacant], destroyed = [], leaked = []\<rparr>"
        and d = "''dst''"]
    by simp
  moreover have "move_assign string_ops
        \<lparr>objs = [occupied ''dst'', occupied ''src''], destroyed = [], leaked = []\<rparr> 0 1
     = Return \<lparr>objs = [occupied ''src'', occupied []], destroyed = [], leaked = []\<rparr>"
    using move_assign_four_cases [where this = 0 and other = 1 and ops = string_ops
        and h = "\<lparr>objs = [occupied ''dst'', occupied ''src''], destroyed = [], leaked = []\<rparr>"
        and d = "''dst''" and s = "''src''" and d' = "''src''" and s' = "[]"]
    by (simp add: m)
  moreover have "move_assign string_ops
        \<lparr>objs = [occupied ''dst''], destroyed = [], leaked = []\<rparr> 0 0
     = Return \<lparr>objs = [occupied ''dst''], destroyed = [], leaked = []\<rparr>"
    using move_assign_four_cases [where this = 0 and other = 0 and ops = string_ops
        and h = "\<lparr>objs = [occupied ''dst''], destroyed = [], leaked = []\<rparr>"
        and d = "''dst''" and d' = "''dst''"]
    by (simp add: m)
  ultimately show ?thesis
    by blast
qed

section \<open>Move construction\<close>

text \<open>
  Claim C3, as stated, says that move construction leaves the source empty. The
  constructor reads \<^verbatim>\<open>other.empty_\<close> and never writes it: after the move the source is
  still occupied, holding what \<open>T\<close>'s move constructor left (for a string, the empty
  string).
\<close>

theorem move_construct_source_counterexample:
  "move_construct string_ops \<lparr>objs = [occupied ''hi''], destroyed = [], leaked = []\<rparr> 0
     = Return \<lparr>objs = [occupied [], occupied ''hi''], destroyed = [], leaked = []\<rparr>
   \<and> \<not> empty_flag (objs \<lparr>objs = [occupied [], occupied ''hi''], destroyed = [], leaked = []\<rparr> ! 0)"
  by (simp add: move_construct_def value_opt_def deref_def set_storage_def push_def string_ops_def)

text \<open>
  Claim C3, amended. Move construction from an occupied source yields an occupied
  destination holding the object that \<open>T\<close>'s move constructor builds from the source's
  object, and leaves the source occupied, holding the moved-from object; nothing is
  destroyed. The source can then be destroyed (its moved-from object is destroyed once),
  cleared by assigning \<^verbatim>\<open>nullopt\<close>, and assigned over by move assignment, here from
  the destination.
\<close>

theorem move_construct_occupied:
  assumes "other < length (objs h)" and "objs h ! other = occupied v"
    and "move_ctor ops v = Inr (n, v')"
  shows "\<exists>h'. move_construct ops h other = Return h'
           \<and> objs h' = (objs h)[other := occupied v'] @ [occupied n]
           \<and> destroyed h' = destroyed h \<and> leaked h' = leaked h
           \<and> (sizeof_T ops \<noteq> 0 \<longrightarrow>
                (\<exists>h''. destructor ops h' other = Return h''
                   \<and> destroyed h'' = destroyed h @ [v'] \<and> storage_buf (objs h'' ! other) = Raw))
           \<and> (\<exists>h''. (assign_nullopt h' other :: ('x exn \<times> 'a state, 'a state) result) = Return h''
                   \<and> objs h'' = (objs h)[other := vacant] @ [occupied n]
                   \<and> destroyed h'' = destroyed h @ [v'])
           \<and> (move_assign_T ops v' n = Inr (d', s') \<longrightarrow>
                (\<exists>h''. move_assign ops h' other (length (objs h)) = Return h''
                   \<and> objs h'' = (objs h)[other := occupied d'] @ [occupied s']
                   \<and> destroyed h'' = destroyed h))"
  using assms
  by (simp add: move_construct_def value_opt_def deref_def set_storage_def push_def
      destructor_def destroy_T_def assign_nullopt_def set_empty_def move_assign_def
      nth_append list_update_append)

theorem move_construct_occupied_witness:
  "\<exists>h'. move_construct string_ops
            \<lparr>objs = [occupied ''hi''], destroyed = [], leaked = []\<rparr> 0 = Return h'
         \<and> objs h' = [occupied [], occupied ''hi'']
         \<and> (\<exists>h''. destructor string_ops h' 0 = Return h'' \<and> destroyed h'' = [[]])
         \<and> (\<exists>h''. (assign_nullopt h' 0 :: (string exn \<times> string state, string state) result)
                      = Return h''
                   \<and> objs h'' = [vacant, occupied ''hi''])
         \<and> (\<exists>h''. move_assign string_ops h' 0 1 = Return h''
                   \<and> objs h'' = [occupied ''hi'', occupied []])"
proof -
  have m: "move_ctor string_ops ''hi'' = Inr (''hi'', [])"
    "move_assign_T string_ops [] ''hi'' = Inr (''hi'', [])"
    "sizeof_T string_ops \<noteq> 0"
    by (simp_all add: string_ops_def)
  show ?thesis
    using move_construct_occupied [where other = 0 and ops = string_ops
        and h = "\<lparr>objs = [occupied ''hi''], destroyed = [], leaked = []\<rparr>"
        and v = "''hi''" and n = "''hi''" and v' = "[]" and d' = "''hi''" and s' = "[]",
        where 'x = string] m
    by simp blast
qed

section \<open>Member functions that no program can call\<close>

lemma deref_const_ill_formed: "deref_const opt = Ill_formed"
  by (simp add: deref_const_def deref_const_well_formed_def casts_away_const_def)

lemma value_const_ill_formed: "value_const opt = Ill_formed"
  by (simp add: value_const_def instantiate_def deref_const_well_formed_def casts_away_const_def)

lemma copy_construct_ill_formed: "copy_construct ops h other = Ill_formed"
  by (simp add: copy_construct_def instantiate_def copy_construct_well_formed_def
      deref_const_well_formed_def casts_away_const_def)

lemma swap_ill_formed: "swap ops h this other = Ill_formed"
  by (simp add: swap_def instantiate_def swap_well_formed_def viable_def members_named_swap_def)

lemma copy_assign_ill_formed: "copy_assign ops h this other = Ill_formed"
  by (simp add: copy_assign_def instantiate_def copy_assign_well_formed_def
      copy_construct_well_formed_def deref_const_well_formed_def casts_away_const_def)

lemma value_or_ill_formed: "value_or cv opt fallback = Ill_formed"
  by (simp add: value_or_def instantiate_def deref_const_well_formed_def casts_away_const_def)

lemma eq_opt_opt_ill_formed: "eq_opt_opt ops lhs rhs = Ill_formed"
  by (simp add: eq_opt_opt_def instantiate_def deref_const_well_formed_def casts_away_const_def)

lemma eq_opt_val_ill_formed: "eq_opt_val ops opt v = Ill_formed"
  by (simp add: eq_opt_val_def instantiate_def deref_const_well_formed_def casts_away_const_def)

lemma eq_val_opt_ill_formed: "eq_val_opt ops v opt = Ill_formed"
  by (simp add: eq_val_opt_def instantiate_def deref_const_well_formed_def casts_away_const_def)

text \<open>
  The statements of the comparison of two containers, run one by one: they answer
  without looking at the objects when a side is empty, and stop at the const
  \<^verbatim>\<open>operator*\<close> when both sides are occupied.
\<close>

lemma eq_opt_opt_stmts_cases:
  "eq_opt_opt_stmts ops lhs rhs =
     (if empty_flag lhs \<noteq> empty_flag rhs then Return False
      else if empty_flag lhs then Return True
      else Ill_formed)"
  by (simp add: eq_opt_opt_stmts_def to_bool_def deref_const_ill_formed)

lemma eq_opt_val_stmts_cases:
  "eq_opt_val_stmts ops opt v = (if empty_flag opt then Return False else Ill_formed)"
  by (simp add: eq_opt_val_stmts_def to_bool_def deref_const_ill_formed)

lemma eq_nullopt_iff_empty:
  "eq_opt_nullopt opt = empty_flag opt \<and> eq_nullopt_opt opt = empty_flag opt"
  by (simp add: eq_opt_nullopt_def eq_nullopt_opt_def to_bool_def)

section \<open>Value with fallback\<close>

text \<open>
  Claim C8 says that \<^verbatim>\<open>value_or\<close> returns a copy of the contained value on an occupied
  container and the converted fallback on an empty one. \<^verbatim>\<open>value_or\<close> is a const member
  and reads the object with \<^verbatim>\<open>**this\<close>, the const \<^verbatim>\<open>operator*\<close> of line 124, whose cast
  to \<^verbatim>\<open>T*\<close> casts away const: a call of \<^verbatim>\<open>value_or\<close> is ill-formed, on an occupied
  container and on an empty one. Run one by one, its statements return the fallback on an
  empty container and stop at \<^verbatim>\<open>**this\<close> on an occupied one.
\<close>

theorem value_or_ill_formed_call:
  "value_or string_cond_ops (occupied ''three'') ''seven'' = Ill_formed
   \<and> value_or string_cond_ops vacant ''seven'' = Ill_formed
   \<and> value_or_stmts string_cond_ops (occupied ''three'') ''seven'' = Ill_formed
   \<and> value_or_stmts string_cond_ops vacant ''seven'' = Return ''seven''"
  by (simp add: value_or_def value_or_stmts_def instantiate_def deref_const_def
      deref_const_well_formed_def casts_away_const_def string_cond_ops_def)

section \<open>Equality\<close>

text \<open>
  Claim C7 says when two containers, and a container and a bare value, compare equal.
  The three operators that compare values read the contained object with \<^verbatim>\<open>*opt\<close> on a
  reference to const, the const \<^verbatim>\<open>operator*\<close> of line 124: a call of any of them is
  ill-formed. Run one by one, their statements answer when a side is empty and stop at
  \<^verbatim>\<open>*opt\<close> when the objects have to be compared. The two comparisons with
  \<^verbatim>\<open>nullopt\<close> use \<^verbatim>\<open>operator bool\<close> only: they hold exactly for an empty container.
\<close>

theorem equality_ill_formed_call:
  "eq_opt_opt string_ops (occupied ''hi'') (occupied ''hi'') = Ill_formed
   \<and> eq_opt_val string_ops (occupied ''hi'') ''hi'' = Ill_formed
   \<and> eq_val_opt string_ops ''hi'' (occupied ''hi'') = Ill_formed
   \<and> eq_opt_opt_stmts string_ops (occupied ''hi'') (occupied ''hi'') = Ill_formed
   \<and> eq_opt_opt_stmts string_ops vacant vacant = Return True
   \<and> eq_opt_opt_stmts string_ops vacant (occupied ''hi'') = Return False
   \<and> eq_opt_opt_stmts string_ops (occupied ''hi'') vacant = Return False
   \<and> eq_opt_val_stmts string_ops (occupied ''hi'') ''hi'' = Ill_formed
   \<and> eq_opt_val_stmts string_ops vacant ''hi'' = Return False
   \<and> eq_val_opt_stmts string_ops ''hi'' (occupied ''hi'') = Ill_formed
   \<and> eq_val_opt_stmts string_ops ''hi'' vacant = Return False
   \<and> eq_opt_nullopt (vacant :: string optional)
   \<and> \<not> eq_opt_nullopt (occupied ''hi'')
   \<and> eq_nullopt_opt (vacant :: string optional)
   \<and> \<not> eq_nullopt_opt (occupied ''hi'')"
  by (simp add: eq_opt_opt_def eq_opt_val_def eq_val_opt_def eq_opt_opt_stmts_def
      eq_opt_val_stmts_def eq_val_opt_stmts_def instantiate_def deref_const_def
      deref_const_well_formed_def casts_away_const_def to_bool_def eq_opt_nullopt_def
      eq_nullopt_opt_def)

section \<open>Swap\<close>

text \<open>
  In the last branch of \<^verbatim>\<open>swap\<close> the pointer \<^verbatim>\<open>in\<close> is \<^verbatim>\<open>this\<close> when \<^verbatim>\<open>this\<close> is
  empty, and \<^verbatim>\<open>&other\<close> when \<^verbatim>\<open>this\<close> is occupied (then \<^verbatim>\<open>other\<close> is empty): it is the
  empty side, whatever \<open>T\<close> is, and \<^verbatim>\<open>**in\<close> is read from a buffer that holds no object.
\<close>

lemma swap_one_occupied_undefined:
  assumes "this < length (objs h)" and "other < length (objs h)"
    and "(objs h ! this = occupied v \<and> objs h ! other = vacant)
         \<or> (objs h ! this = vacant \<and> objs h ! other = occupied v)"
  shows "swap_stmts ops h this other = Undefined"
  using assms by (auto simp: swap_stmts_def swap_in_def swap_un_def deref_def)

text \<open>
  Claim C1 says that with exactly one side occupied \<^verbatim>\<open>swap\<close> moves the object to the
  empty side and flips both flags. On \<^verbatim>\<open>x{"hi"}, y; x.swap(y)\<close> the statements take
  \<^verbatim>\<open>in = &y\<close>, the empty side, and \<^verbatim>\<open>un = &x\<close>: the move constructor reads an object
  that does not exist, and the two writes \<^verbatim>\<open>un->empty_ = false; in->empty_ = true\<close>
  give both flags the values they had. The same happens with the sides exchanged. And
  the program that contains the call is rejected before that, for the call of line 162
  in the body of \<^verbatim>\<open>swap\<close>.
\<close>

theorem swap_occupied_with_vacant:
  "swap_stmts string_ops \<lparr>objs = [occupied ''hi'', vacant], destroyed = [], leaked = []\<rparr> 0 1
     = Undefined
   \<and> swap_in \<lparr>objs = [occupied ''hi'', vacant], destroyed = [], leaked = []\<rparr> 0 1 = 1
   \<and> swap_un \<lparr>objs = [occupied ''hi'', vacant], destroyed = [], leaked = []\<rparr> 0 1 = 0
   \<and> map empty_flag
        (objs (set_empty
                 (set_empty \<lparr>objs = [occupied ''hi'', vacant], destroyed = [], leaked = []\<rparr> 0 False)
                 1 True))
     = [False, True]
   \<and> swap_stmts string_ops \<lparr>objs = [vacant, occupied ''hi''], destroyed = [], leaked = []\<rparr> 0 1
     = Undefined
   \<and> swap_in \<lparr>objs = [vacant, occupied ''hi''], destroyed = [], leaked = []\<rparr> 0 1 = 0
   \<and> swap_un \<lparr>objs = [vacant, occupied ''hi''], destroyed = [], leaked = []\<rparr> 0 1 = 1
   \<and> swap string_ops \<lparr>objs = [occupied ''hi'', vacant], destroyed = [], leaked = []\<rparr> 0 1
     = Ill_formed
   \<and> swap string_ops \<lparr>objs = [vacant, occupied ''hi''], destroyed = [], leaked = []\<rparr> 0 1
     = Ill_formed"
  by (simp add: swap_def swap_stmts_def swap_in_def swap_un_def deref_def set_empty_def
      instantiate_def swap_well_formed_def viable_def members_named_swap_def)

section \<open>Copy assignment\<close>

text \<open>
  Claim C2 says that after \<^verbatim>\<open>a = b\<close> the target equals the source in every combination
  of occupied and empty. A program that contains \<^verbatim>\<open>a = b\<close> is rejected: the copy
  assignment constructs \<^verbatim>\<open>tmp\<close> through the const \<^verbatim>\<open>value()\<close> and calls the member
  \<^verbatim>\<open>swap\<close>. Run one by one, its statements stop in the copy constructor when the
  source is occupied; when the source is empty and the target occupied they reach the
  last branch of \<^verbatim>\<open>swap\<close>, which reads the empty side.
\<close>

theorem copy_assign_mixed_occupancy:
  "copy_assign string_ops \<lparr>objs = [vacant, occupied ''hi''], destroyed = [], leaked = []\<rparr> 0 1
     = Ill_formed
   \<and> copy_assign string_ops \<lparr>objs = [occupied ''old'', vacant], destroyed = [], leaked = []\<rparr> 0 1
     = Ill_formed
   \<and> copy_assign_stmts string_ops
        \<lparr>objs = [vacant, occupied ''hi''], destroyed = [], leaked = []\<rparr> 0 1
     = Ill_formed
   \<and> copy_assign_stmts string_ops
        \<lparr>objs = [occupied ''old'', vacant], destroyed = [], leaked = []\<rparr> 0 1
     = Undefined"
  by (simp add: copy_assign_def copy_assign_stmts_def copy_construct_stmts_def
      value_const_stmts_def deref_const_def instantiate_def copy_assign_well_formed_def
      copy_construct_well_formed_def deref_const_well_formed_def casts_away_const_def
      push_def swap_stmts_def swap_in_def swap_un_def deref_def)


text \<open>
  Claim C10 says that after \<^verbatim>\<open>a = a\<close> the object equals what it was. The call is
  ill-formed, for an occupied \<^verbatim>\<open>a\<close> and for an empty one. Run one by one, the
  statements stop in the copy constructor when \<^verbatim>\<open>a\<close> is occupied, and leave the store
  as it was when \<^verbatim>\<open>a\<close> is empty.
\<close>

theorem copy_self_assign_ill_formed:
  "copy_assign string_ops \<lparr>objs = [occupied ''hi''], destroyed = [], leaked = []\<rparr> 0 0
     = Ill_formed
   \<and> copy_assign string_ops \<lparr>objs = [vacant], destroyed = [], leaked = []\<rparr> 0 0
     = Ill_formed
   \<and> copy_assign_stmts string_ops \<lparr>objs = [occupied ''hi''], destroyed = [], leaked = []\<rparr> 0 0
     = Ill_formed
   \<and> copy_assign_stmts string_ops \<lparr>objs = [vacant], destroyed = [], leaked = []\<rparr> 0 0
     = Return \<lparr>objs = [vacant], destroyed = [], leaked = []\<rparr>"
  by (simp add: copy_assign_def copy_assign_stmts_def copy_construct_stmts_def
      value_const_stmts_def deref_const_def instantiate_def copy_assign_well_formed_def
      copy_construct_well_formed_def deref_const_well_formed_def casts_away_const_def
      push_def pop_def swap_stmts_def destructor_def)

end
